theory Spec2Isabelle
  imports Complex_Main "HOL-Library.AList"
begin

section \<open>Synthetic images (skrt/simulation.py)\<close>

text \<open>
  The class \<open>SyntheticImage\<close> keeps a list of geometric shapes and three dictionaries
  keyed by ROI name (\<open>roi_shapes\<close>, \<open>rois\<close>, \<open>groups\<close>). Python dictionaries keep
  insertion order, so they are association lists here: a lookup is \<open>map_of\<close>, a store is
  \<open>AList.update\<close> (an existing key keeps its place, a new one goes last). A method that
  mutates \<open>self\<close> returns the new object next to its result, and an exception is the
  \<open>Inl\<close> of the result: the object keeps whatever was assigned before the raise.

  The model covers images without noise (\<open>noise_std\<close> is \<open>None\<close>, the constructor's
  default) and the shapes that \<open>add_cube\<close> and \<open>add_cuboid\<close> build, which are cuboids.
\<close>

subsection \<open>Data\<close>

datatype py_error = KeyError "string option" | IndexError

type_synonym 'v py_dict = "(string \<times> 'v) list"

text \<open>A numeric argument that may be one number or a sequence (\<open>side_length\<close>).\<close>

datatype py_arg = Num rat | Seq "rat list"

text \<open>The class \<open>Cuboid\<close>, with the fields its \<open>__init__\<close> assigns.\<close>

record shape =
  shape_name :: "string option"
  shape_side_length :: "rat list"
  shape_centre :: "rat list"
  shape_intensity :: rat

record shape_group =
  group_name :: string
  group_shapes :: "shape list"

text \<open>
  An entry of \<open>roi_shapes\<close> is a single shape or a \<open>ShapeGroup\<close>. The group stored under
  key \<open>g\<close> is the very object \<open>groups[g]\<close>, so a shape added to the group later is seen
  through both dictionaries.
\<close>

datatype roi_shape = RShape shape | RGroup shape_group

record ('a, 'd) roi =
  roi_data :: 'd
  roi_name :: string
  roi_affine :: 'a

record ('a, 'd) synthetic_image =
  img_shape :: "nat list"
  voxel_size :: "rat list"
  origin :: "rat list"
  max_hu :: rat
  min_hu :: rat
  bg_intensity :: rat
  shapes :: "shape list"
  roi_shapes :: "roi_shape py_dict"
  rois :: "('a, 'd) roi py_dict"
  groups :: "shape_group py_dict"
  shape_count :: "nat py_dict"
  translation :: "(rat \<times> rat \<times> rat) option"
  rotation :: "(rat \<times> rat \<times> rat) option"

text \<open>
  What the class takes from modules that are not part of the sources (\<open>skrt.core\<close>,
  \<open>skrt.image\<close>, numpy): they are parameters. \<open>cuboid_mask\<close> is the numpy comparison
  inside \<open>Cuboid.get_data\<close>, on a centre and a side length of three entries;
  \<open>add_data\<close> is numpy's \<open>+=\<close> on two masks.
\<close>

record ('c, 'a, 'd) image_api =
  to_list :: "py_arg \<Rightarrow> rat list"
  get_centre :: "('a, 'd) synthetic_image \<Rightarrow> rat list"
  get_coords :: "('a, 'd) synthetic_image \<Rightarrow> 'c"
  get_affine :: "('a, 'd) synthetic_image \<Rightarrow> 'a"
  cuboid_mask :: "shape \<Rightarrow> 'c \<Rightarrow> 'd"
  add_data :: "'d \<Rightarrow> 'd \<Rightarrow> 'd"

subsection \<open>Dictionaries and formatting\<close>

definition dict_has :: "'v py_dict \<Rightarrow> string \<Rightarrow> bool" where
  "dict_has d k = (map_of d k \<noteq> None)"

definition dict_get :: "'v py_dict \<Rightarrow> string \<Rightarrow> py_error + 'v" where
  "dict_get d k = (case map_of d k of None \<Rightarrow> Inl (KeyError (Some k)) | Some v \<Rightarrow> Inr v)"

definition digit_char :: "nat \<Rightarrow> char" where
  "digit_char n = ''0123456789'' ! n"

fun string_of_nat :: "nat \<Rightarrow> string" where
  "string_of_nat n =
     (if n < 10 then [digit_char n] else string_of_nat (n div 10) @ [digit_char (n mod 10)])"

declare string_of_nat.simps [simp del]

subsection \<open>Shapes and ROIs\<close>

text \<open>\<open>Cuboid.__init__\<close>: the side length goes through \<open>to_list\<close> once more.\<close>

definition Cuboid ::
  "('c, 'a, 'd) image_api \<Rightarrow> rat list \<Rightarrow> rat list \<Rightarrow> rat \<Rightarrow> string option \<Rightarrow> shape" where
  "Cuboid api side_length centre intensity name =
     \<lparr>shape_name = name, shape_side_length = to_list api (Seq side_length),
      shape_centre = centre, shape_intensity = intensity\<rparr>"

text \<open>
  \<open>Cuboid.get_data\<close> reads the entries 0, 1 and 2 of the centre and of the side length;
  a list of fewer than three entries raises \<open>IndexError\<close>, which the method does not
  catch (it catches \<open>TypeError\<close> only).
\<close>

definition get_data :: "('c, 'a, 'd) image_api \<Rightarrow> shape \<Rightarrow> 'c \<Rightarrow> py_error + 'd" where
  "get_data api s coords =
     (if length (shape_centre s) < 3 \<or> length (shape_side_length s) < 3 then Inl IndexError
      else Inr (cuboid_mask api s coords))"

text \<open>\<open>ShapeGroup.get_data\<close>: the first shape's mask, then every other one added to it.\<close>

fun add_shape_data ::
  "('c, 'a, 'd) image_api \<Rightarrow> 'd \<Rightarrow> shape list \<Rightarrow> 'c \<Rightarrow> py_error + 'd" where
  "add_shape_data api data [] coords = Inr data"
| "add_shape_data api data (s # rest) coords =
     (case get_data api s coords of
        Inl e \<Rightarrow> Inl e
      | Inr d \<Rightarrow> add_shape_data api (add_data api data d) rest coords)"

definition group_get_data :: "('c, 'a, 'd) image_api \<Rightarrow> shape_group \<Rightarrow> 'c \<Rightarrow> py_error + 'd" where
  "group_get_data api g coords =
     (case group_shapes g of
        [] \<Rightarrow> Inl IndexError
      | s # rest \<Rightarrow>
          (case get_data api s coords of
             Inl e \<Rightarrow> Inl e
           | Inr data \<Rightarrow> add_shape_data api data rest coords))"

definition roi_shape_get_data ::
  "('c, 'a, 'd) image_api \<Rightarrow> roi_shape \<Rightarrow> 'c \<Rightarrow> py_error + 'd" where
  "roi_shape_get_data api rs coords =
     (case rs of RShape s \<Rightarrow> get_data api s coords | RGroup g \<Rightarrow> group_get_data api g coords)"

definition put_shape :: "bool \<Rightarrow> shape list \<Rightarrow> shape \<Rightarrow> shape list" where
  "put_shape abv xs s = (if abv then xs @ [s] else s # xs)"

text \<open>
  The ROI that \<open>add_shape\<close> builds: the mask is computed first, so an \<open>IndexError\<close> of
  \<open>get_data\<close> leaves no ROI.
\<close>

definition new_roi ::
  "('c, 'a, 'd) image_api \<Rightarrow> ('a, 'd) synthetic_image \<Rightarrow> shape \<Rightarrow> string
     \<Rightarrow> py_error + ('a, 'd) roi" where
  "new_roi api self s name =
     (case get_data api s (get_coords api self) of
        Inl e \<Rightarrow> Inl e
      | Inr d \<Rightarrow> Inr \<lparr>roi_data = d, roi_name = name, roi_affine = get_affine api self\<rparr>)"

text \<open>
  \<open>add_shape\<close>, branch "ROI with a group": a new group is entered in \<open>groups\<close> and
  \<open>roi_shapes\<close> and then, with its ROI, in \<open>rois\<close>; an existing group gets the shape
  appended, and \<open>roi_shapes\<close> sees the change where it still holds that group object.
\<close>

definition add_to_group ::
  "('c, 'a, 'd) image_api \<Rightarrow> ('a, 'd) synthetic_image \<Rightarrow> shape \<Rightarrow> string
     \<Rightarrow> ('a, 'd) synthetic_image \<times> (py_error + unit)" where
  "add_to_group api self s g =
     (case map_of (groups self) g of
        None \<Rightarrow>
          (let grp = \<lparr>group_name = g, group_shapes = [s]\<rparr>;
               self1 = self\<lparr>groups := AList.update g grp (groups self)\<rparr>;
               self2 = self1\<lparr>roi_shapes := AList.update g (RGroup grp) (roi_shapes self1)\<rparr>
           in case new_roi api self2 s g of
                Inl e \<Rightarrow> (self2, Inl e)
              | Inr r \<Rightarrow> (self2\<lparr>rois := AList.update g r (rois self2)\<rparr>, Inr ()))
      | Some grp \<Rightarrow>
          (let grp' = grp\<lparr>group_shapes := group_shapes grp @ [s]\<rparr>
           in (self\<lparr>groups := AList.update g grp' (groups self),
                    roi_shapes :=
                      (case map_of (roi_shapes self) g of
                         Some (RGroup _) \<Rightarrow> AList.update g (RGroup grp') (roi_shapes self)
                       | _ \<Rightarrow> roi_shapes self)\<rparr>,
               Inr ())))"

text \<open>
  \<open>add_shape\<close>, branch "ROI without a group": the counter of the shape type goes up, a
  nameless shape is named after its type and the counter (the shape object is the one
  already placed in \<open>shapes\<close>, so the name shows there too), and the shape is entered in
  \<open>roi_shapes\<close> and then, with its ROI, in \<open>rois\<close> under its name.
\<close>

definition add_named ::
  "('c, 'a, 'd) image_api \<Rightarrow> ('a, 'd) synthetic_image \<Rightarrow> shape list \<Rightarrow> shape \<Rightarrow> string \<Rightarrow> bool
     \<Rightarrow> ('a, 'd) synthetic_image \<times> (py_error + shape)" where
  "add_named api self shapes0 s shape_type abv =
     (let n = (case map_of (shape_count self) shape_type of None \<Rightarrow> 1 | Some c \<Rightarrow> c + 1);
          self1 = self\<lparr>shape_count := AList.update shape_type n (shape_count self)\<rparr>;
          nm = (case shape_name s of None \<Rightarrow> shape_type @ string_of_nat n | Some x \<Rightarrow> x);
          s1 = s\<lparr>shape_name := Some nm\<rparr>;
          self2 = self1\<lparr>shapes := put_shape abv shapes0 s1\<rparr>;
          self3 = self2\<lparr>roi_shapes := AList.update nm (RShape s1) (roi_shapes self2)\<rparr>
      in case new_roi api self3 s1 nm of
           Inl e \<Rightarrow> (self3, Inl e)
         | Inr r \<Rightarrow> (self3\<lparr>rois := AList.update nm r (rois self3)\<rparr>, Inr s1))"

text \<open>The end of \<open>add_shape\<close>: the intensity range is widened and the ROI returned.\<close>

definition finish_shape ::
  "('a, 'd) synthetic_image \<Rightarrow> shape \<Rightarrow> bool
     \<Rightarrow> ('a, 'd) synthetic_image \<times> (py_error + ('a, 'd) roi option)" where
  "finish_shape self s is_roi =
     (let self1 = self\<lparr>min_hu := min (shape_intensity s) (min_hu self)\<rparr>;
          self2 = self1\<lparr>max_hu := max (shape_intensity s) (max_hu self1)\<rparr>
      in if is_roi then
           (self2,
            case shape_name s of
              None \<Rightarrow> Inl (KeyError None)
            | Some nm \<Rightarrow> map_sum id Some (dict_get (rois self2) nm))
         else (self2, Inr None))"

definition add_shape ::
  "('c, 'a, 'd) image_api \<Rightarrow> ('a, 'd) synthetic_image \<Rightarrow> shape \<Rightarrow> string \<Rightarrow> bool option \<Rightarrow> bool
     \<Rightarrow> string option \<Rightarrow> ('a, 'd) synthetic_image \<times> (py_error + ('a, 'd) roi option)" where
  "add_shape api self s shape_type is_roi abv group0 =
     (let self1 = self\<lparr>shapes := put_shape abv (shapes self) s\<rparr>;
          is_roi1 = (if is_roi = None \<and> (group0 \<noteq> None \<or> shape_name s \<noteq> None)
                     then Some True else is_roi)
      in if is_roi1 = Some True then
           (case group0 of
              Some g \<Rightarrow>
                (case add_to_group api self1 s g of
                   (self2, Inl e) \<Rightarrow> (self2, Inl e)
                 | (self2, Inr _) \<Rightarrow> finish_shape self2 s True)
            | None \<Rightarrow>
                (case add_named api self1 (shapes self) s shape_type abv of
                   (self2, Inl e) \<Rightarrow> (self2, Inl e)
                 | (self2, Inr s1) \<Rightarrow> finish_shape self2 s1 True))
         else finish_shape self1 s False)"

text \<open>
  \<open>add_cuboid\<close> and \<open>add_cube\<close>. An argument left out in the call is \<open>None\<close> here and
  takes the default of the method's own signature (\<open>intensity=0\<close>, \<open>above=True\<close>; the
  other defaults are Python's \<open>None\<close>).
\<close>

definition add_cuboid ::
  "('c, 'a, 'd) image_api \<Rightarrow> ('a, 'd) synthetic_image \<Rightarrow> py_arg \<Rightarrow> rat list option \<Rightarrow> rat option
     \<Rightarrow> bool option \<Rightarrow> string option \<Rightarrow> bool option \<Rightarrow> string option
     \<Rightarrow> ('a, 'd) synthetic_image \<times> (py_error + ('a, 'd) roi option)" where
  "add_cuboid api self side_length centre intensity is_roi name abv group0 =
     (let intensity1 = (case intensity of None \<Rightarrow> 0 | Some i \<Rightarrow> i);
          above1 = (case abv of None \<Rightarrow> True | Some a \<Rightarrow> a);
          centre1 = (case centre of None \<Rightarrow> get_centre api self | Some c \<Rightarrow> c);
          side_length1 = to_list api side_length;
          cuboid = Cuboid api side_length1 centre1 intensity1 name
      in add_shape api self cuboid ''cuboid'' is_roi above1 group0)"

definition add_cube ::
  "('c, 'a, 'd) image_api \<Rightarrow> ('a, 'd) synthetic_image \<Rightarrow> py_arg \<Rightarrow> rat list option \<Rightarrow> rat option
     \<Rightarrow> bool option \<Rightarrow> string option \<Rightarrow> bool option \<Rightarrow> string option
     \<Rightarrow> ('a, 'd) synthetic_image \<times> (py_error + ('a, 'd) roi option)" where
  "add_cube api self side_length centre intensity is_roi name abv group0 =
     (let intensity1 = (case intensity of None \<Rightarrow> 0 | Some i \<Rightarrow> i);
          above1 = (case abv of None \<Rightarrow> True | Some a \<Rightarrow> a)
      in add_cuboid api self side_length centre (Some intensity1) is_roi name (Some above1) group0)"

subsection \<open>Refreshing and reading ROIs\<close>

text \<open>
  \<open>update_roi\<close>: the right-hand side is evaluated first (\<open>roi_shapes[name]\<close>, then the
  mask), then the target \<open>rois[name]\<close>; either lookup raises \<open>KeyError\<close> on a missing key,
  and the mask may raise \<open>IndexError\<close>.
\<close>

definition update_roi ::
  "('c, 'a, 'd) image_api \<Rightarrow> ('a, 'd) synthetic_image \<Rightarrow> string
     \<Rightarrow> ('a, 'd) synthetic_image \<times> (py_error + unit)" where
  "update_roi api self name =
     (case dict_get (roi_shapes self) name of
        Inl e \<Rightarrow> (self, Inl e)
      | Inr rs \<Rightarrow>
          (case roi_shape_get_data api rs (get_coords api self) of
             Inl e \<Rightarrow> (self, Inl e)
           | Inr d \<Rightarrow>
               (case dict_get (rois self) name of
                  Inl e \<Rightarrow> (self, Inl e)
                | Inr r \<Rightarrow>
                    (self\<lparr>rois := AList.update name (r\<lparr>roi_data := d\<rparr>) (rois self)\<rparr>,
                     Inr ()))))"

fun update_rois_loop ::
  "('c, 'a, 'd) image_api \<Rightarrow> ('a, 'd) synthetic_image \<Rightarrow> string list
     \<Rightarrow> ('a, 'd) synthetic_image \<times> (py_error + unit)" where
  "update_rois_loop api self [] = (self, Inr ())"
| "update_rois_loop api self (name # names) =
     (case update_roi api self name of
        (self1, Inl e) \<Rightarrow> (self1, Inl e)
      | (self1, Inr _) \<Rightarrow> update_rois_loop api self1 names)"

definition update_rois ::
  "('c, 'a, 'd) image_api \<Rightarrow> ('a, 'd) synthetic_image
     \<Rightarrow> ('a, 'd) synthetic_image \<times> (py_error + unit)" where
  "update_rois api self = update_rois_loop api self (map fst (rois self))"

text \<open>
  \<open>get_roi\<close> returns what it printed, the object afterwards and the result: \<open>None\<close> for
  a name that \<open>rois\<close> does not hold, the refreshed ROI otherwise.
\<close>

definition get_roi ::
  "('c, 'a, 'd) image_api \<Rightarrow> ('a, 'd) synthetic_image \<Rightarrow> string
     \<Rightarrow> string list \<times> ('a, 'd) synthetic_image \<times> (py_error + ('a, 'd) roi option)" where
  "get_roi api self name =
     (if \<not> dict_has (rois self) name then
        ([''ROI '' @ name @ '' not found!''], self, Inr None)
      else
        (case update_roi api self name of
           (self1, Inl e) \<Rightarrow> ([], self1, Inl e)
         | (self1, Inr _) \<Rightarrow> ([], self1, map_sum id Some (dict_get (rois self1) name))))"

text \<open>
  \<open>reset\<close> ("Remove all shapes") empties \<open>shapes\<close>, \<open>roi_shapes\<close>, \<open>groups\<close> and
  \<open>shape_count\<close>, clears the two transforms and calls \<open>update\<close>; it does not touch
  \<open>rois\<close>, which \<open>__init__\<close> empties together with the other four. With no shape and
  no noise left, \<open>update\<close> paints the background and then asks for the structure set,
  whose first step is \<open>update_rois\<close>. The pixel array and the structure sets of the base
  class are outside this model, and the calls into the base class are taken to return.
\<close>

definition reset ::
  "('c, 'a, 'd) image_api \<Rightarrow> ('a, 'd) synthetic_image
     \<Rightarrow> ('a, 'd) synthetic_image \<times> (py_error + unit)" where
  "reset api self =
     update_rois api
       (self\<lparr>shapes := [], roi_shapes := [], groups := [], shape_count := [],
             translation := None, rotation := None\<rparr>)"

text \<open>
  The well-formedness that \<open>get_roi\<close> relies on: every name of \<open>rois\<close> has its shape in
  \<open>roi_shapes\<close>.
\<close>

definition keys_ok :: "('a, 'd) synthetic_image \<Rightarrow> bool" where
  "keys_ok self = (fst ` set (rois self) \<subseteq> fst ` set (roi_shapes self))"

subsection \<open>Concrete input\<close>

text \<open>
  An instance of the parameters on a grid of three voxels: the mask is the comparison of
  \<open>Cuboid.get_data\<close> voxel by voxel, and adding two boolean masks is their disjunction.
\<close>

definition test_mask :: "shape \<Rightarrow> (rat \<times> rat \<times> rat) list \<Rightarrow> bool list" where
  "test_mask s coords =
     map (\<lambda>(c0, c1, c2).
            \<bar>c1 - shape_centre s ! 1\<bar> \<le> shape_side_length s ! 1 / 2
          \<and> \<bar>c0 - shape_centre s ! 0\<bar> \<le> shape_side_length s ! 0 / 2
          \<and> \<bar>c2 - shape_centre s ! 2\<bar> \<le> shape_side_length s ! 2 / 2) coords"

definition test_api :: "((rat \<times> rat \<times> rat) list, unit, bool list) image_api" where
  "test_api =
     \<lparr>to_list = (\<lambda>a. case a of Num x \<Rightarrow> [x, x, x] | Seq xs \<Rightarrow> xs),
      get_centre = (\<lambda>self. map (\<lambda>n. rat_of_nat n / 2) (img_shape self)),
      get_coords = (\<lambda>_. [(5, 5, 5), (0, 0, 0), (9, 9, 9)]),
      get_affine = (\<lambda>_. ()),
      cuboid_mask = test_mask,
      add_data = map2 (\<or>)\<rparr>"

text \<open>
  The fields of \<open>SyntheticImage((11, 11, 11))\<close> after \<open>__init__\<close>: the defaults of the
  signature, no noise, no shape.
\<close>

definition test_image :: "(unit, bool list) synthetic_image" where
  "test_image =
     \<lparr>img_shape = [11, 11, 11], voxel_size = [1, 1, 1], origin = [0, 0, 0],
      max_hu = 0, min_hu = - 20, bg_intensity = - 1024,
      shapes = [], roi_shapes = [], rois = [], groups = [], shape_count = [],
      translation = None, rotation = None\<rparr>"

text \<open>
  The image of the registration tests (\<open>sim3.add_cube(4, name="cube")\<close>), and the same
  object after a call of \<open>reset\<close>.
\<close>

definition cube_image :: "(unit, bool list) synthetic_image" where
  "cube_image =
     fst (add_cube test_api test_image (Num 4) None None None (Some ''cube'') None None)"

definition stale_image :: "(unit, bool list) synthetic_image" where
  "stale_image = fst (reset test_api cube_image)"

text \<open>
  A group of two cubes under the name \<open>g\<close>: the ROI is built from the first, so its mask
  is out of date once the second has joined the group.
\<close>

definition group_image :: "(unit, bool list) synthetic_image" where
  "group_image =
     fst (add_cube test_api
            (fst (add_cube test_api test_image (Num 4) None None None (Some ''g'') None
                    (Some ''g'')))
            (Num 2) (Some [9, 9, 9]) None None (Some ''g'') None (Some ''g''))"

section \<open>Parameter codec: the translation shift\<close>

text \<open>
  The codec lives in \<open>skrt/registration.py\<close>, which is not among the sources; the tests
  call it (\<open>read_parameters\<close>, \<open>shift_translation_parameters\<close>). What follows is written
  from the specification's sections 3, 4.1 and 7.
\<close>

text \<open>
  Modelled from the spec: the typed values of a ParameterSet (the tagged variant Bool, Int,
  Float, String, List of section 3). The codec's value type is missing from the sources.
  A float stands for the number its numeral denotes, an exact rational.
\<close>

datatype scalar = SBool bool | SInt int | SFloat rat | SStr string

datatype pvalue = Scalar scalar | PList "scalar list"

text \<open>
  Modelled from the spec: a ParameterSet, an ordered mapping from key to typed value;
  the type is missing from the sources.
\<close>

type_synonym parameter_set = "(string \<times> pvalue) list"

text \<open>
  Modelled from the spec: the two errors of the codec (section 7); the exception classes
  are missing from the sources.
\<close>

datatype codec_error = ParseError | SchemaError

text \<open>
  Modelled from the spec: the files the codec reads and writes, each path holding the
  ParameterSet that \<open>read\<close> decodes from it (the format round-trips through read and
  write, section 6). File input and output are missing from the sources.
\<close>

type_synonym file_store = "string \<Rightarrow> parameter_set option"

text \<open>
  Modelled from the spec: \<open>read(path)\<close>, which fails with \<open>ParseError\<close> where no
  well-formed parameter file is found. The function is missing from the sources.
\<close>

definition read_parameters :: "file_store \<Rightarrow> string \<Rightarrow> codec_error + parameter_set" where
  "read_parameters fs path = (case fs path of None \<Rightarrow> Inl ParseError | Some ps \<Rightarrow> Inr ps)"

text \<open>
  Modelled from the spec: \<open>write(path, ParameterSet)\<close>, which leaves every other file
  alone. The function is missing from the sources.
\<close>

definition write_parameters :: "file_store \<Rightarrow> string \<Rightarrow> parameter_set \<Rightarrow> file_store" where
  "write_parameters fs path ps = fs(path \<mapsto> ps)"

text \<open>
  Modelled from the spec: the numbers a translation vector and a shift are made of, with
  the subtraction of the host language (two integers give an integer, anything else a
  float). The arithmetic of the missing function \<open>shiftTranslation\<close>.
\<close>

datatype number = NInt int | NFloat rat

fun num_value :: "number \<Rightarrow> rat" where
  "num_value (NInt i) = of_int i"
| "num_value (NFloat x) = x"

fun num_sub :: "number \<Rightarrow> number \<Rightarrow> number" where
  "num_sub (NInt a) (NInt b) = NInt (a - b)"
| "num_sub a b = NFloat (num_value a - num_value b)"

fun as_number :: "scalar \<Rightarrow> number option" where
  "as_number (SInt i) = Some (NInt i)"
| "as_number (SFloat x) = Some (NFloat x)"
| "as_number _ = None"

fun of_number :: "number \<Rightarrow> scalar" where
  "of_number (NInt i) = SInt i"
| "of_number (NFloat x) = SFloat x"

text \<open>
  Modelled from the spec: the \<open>TransformParameters\<close> list of a transform file, the field
  the missing function \<open>shiftTranslation\<close> reads.
\<close>

definition transform_parameters :: "parameter_set \<Rightarrow> scalar list option" where
  "transform_parameters ps =
     (case map_of ps ''TransformParameters'' of Some (PList vs) \<Rightarrow> Some vs | _ \<Rightarrow> None)"

text \<open>
  Modelled from the spec: the step of the missing function \<open>shiftTranslation\<close> that
  treats the first three entries as a translation vector in (x, y, z) order, subtracts
  \<open>(dx, dy, dz)\<close> from them and leaves the remaining entries untouched; \<open>SchemaError\<close>
  when there are fewer than three translation parameters.
\<close>

fun shift_entries ::
  "scalar list \<Rightarrow> number \<Rightarrow> number \<Rightarrow> number \<Rightarrow> codec_error + scalar list" where
  "shift_entries (a # b # c # rest) dx dy dz =
     (case (as_number a, as_number b, as_number c) of
        (Some x, Some y, Some z) \<Rightarrow>
          Inr (of_number (num_sub x dx) # of_number (num_sub y dy) # of_number (num_sub z dz)
                 # rest)
      | _ \<Rightarrow> Inl SchemaError)"
| "shift_entries _ dx dy dz = Inl SchemaError"

text \<open>
  Modelled from the spec: \<open>shiftTranslation(transformFilePath, dx, dy, dz, destPath)\<close>,
  missing from the sources: it reads the file's \<open>TransformParameters\<close> list, shifts it
  and writes the adjusted file.
\<close>

definition shiftTranslation ::
  "file_store \<Rightarrow> string \<Rightarrow> number \<Rightarrow> number \<Rightarrow> number \<Rightarrow> string \<Rightarrow> codec_error + file_store" where
  "shiftTranslation fs transformFilePath dx dy dz destPath =
     (case read_parameters fs transformFilePath of
        Inl e \<Rightarrow> Inl e
      | Inr ps \<Rightarrow>
          (case map_of ps ''TransformParameters'' of
             Some (PList vs) \<Rightarrow>
               (case shift_entries vs dx dy dz of
                  Inl e \<Rightarrow> Inl e
                | Inr vs' \<Rightarrow>
                    Inr (write_parameters fs destPath
                          (AList.update ''TransformParameters'' (PList vs') ps)))
           | _ \<Rightarrow> Inl SchemaError))"

text \<open>A transform file of five parameters, for evaluating the shift on concrete input.\<close>

definition transform_file :: parameter_set where
  "transform_file =
     [(''Transform'', Scalar (SStr ''AffineTransform'')),
      (''NumberOfParameters'', Scalar (SInt 5)),
      (''TransformParameters'',
         PList [SFloat (3 / 2), SInt (- 2), SFloat (1 / 4), SInt 1, SFloat 0]),
      (''UseDirectionCosines'', Scalar (SBool True))]"

definition shift_store :: file_store where
  "shift_store = Map.empty(''TransformParameters.0.txt'' \<mapsto> transform_file)"

section \<open>Theorems\<close>

subsection \<open>Synthetic images\<close>

text \<open>
  C9. \<open>add_cube\<close> is an alias of \<open>add_cuboid\<close>: on every image and for every choice of
  arguments, given or left to their defaults, both calls end in the same object and
  return the same value (the same ROI, the same \<open>None\<close> or the same exception).
\<close>

theorem add_cube_is_add_cuboid:
  "add_cube api self side_length centre intensity is_roi name abv group0 =
   add_cuboid api self side_length centre intensity is_roi name abv group0"
  by (simp add: add_cube_def add_cuboid_def split: option.splits)

text \<open>
  The call of the registration tests, \<open>add_cube(2, centre=(4, 4, 4))\<close>: both methods add
  a shape that is no ROI and return \<open>None\<close>.
\<close>

theorem add_cube_is_add_cuboid_witness:
  "add_cube test_api test_image (Num 2) (Some [4, 4, 4]) None None None None None =
     add_cuboid test_api test_image (Num 2) (Some [4, 4, 4]) None None None None None \<and>
   snd (add_cube test_api test_image (Num 2) (Some [4, 4, 4]) None None None None None) =
     Inr None"
proof -
  have "snd (add_cuboid test_api test_image (Num 2) (Some [4, 4, 4]) None None None None None) =
          Inr None"
    by code_simp
  with add_cube_is_add_cuboid
         [of test_api test_image "Num 2" "Some [4, 4, 4]" None None None None None]
  show ?thesis
    by simp
qed

text \<open>
  \<open>get_roi\<close> on a name that \<open>rois\<close> does not hold: the not-found line is printed,
  \<open>None\<close> is returned, nothing is raised and the image is as it was.
\<close>

lemma get_roi_absent:
  "\<not> dict_has (rois self) name \<Longrightarrow>
     get_roi api self name = ([''ROI '' @ name @ '' not found!''], self, Inr None)"
  by (simp add: get_roi_def)

text \<open>
  \<open>get_roi\<close> on a name that \<open>rois\<close> holds, with its shape in \<open>roi_shapes\<close>: the mask is
  computed afresh; an \<open>IndexError\<close> of the mask is passed on, otherwise the ROI gets the
  new mask and is returned.
\<close>

lemma get_roi_present:
  assumes "map_of (rois self) name = Some r"
    and "map_of (roi_shapes self) name = Some rs"
  shows "get_roi api self name =
           (case roi_shape_get_data api rs (get_coords api self) of
              Inl e \<Rightarrow> ([], self, Inl e)
            | Inr d \<Rightarrow>
                ([], self\<lparr>rois := AList.update name (r\<lparr>roi_data := d\<rparr>) (rois self)\<rparr>,
                 Inr (Some (r\<lparr>roi_data := d\<rparr>))))"
  using assms
  by (simp add: get_roi_def update_roi_def dict_has_def dict_get_def update_conv'
           split: sum.splits)

text \<open>
  Every name of \<open>rois\<close> has its shape in \<open>roi_shapes\<close> on a new image, and \<open>add_shape\<close>
  keeps it so, whether it returns or raises; so do \<open>add_cuboid\<close> and \<open>add_cube\<close>.
\<close>

lemma keys_ok_test_image: "keys_ok test_image"
  by (simp add: keys_ok_def test_image_def)

lemma keys_ok_finish_shape: "keys_ok (fst (finish_shape self s b)) = keys_ok self"
  by (simp add: keys_ok_def finish_shape_def Let_def)

lemma keys_ok_add_to_group:
  "keys_ok self \<Longrightarrow> keys_ok (fst (add_to_group api self s g))"
  by (auto simp: keys_ok_def add_to_group_def Let_def dom_update
           split: option.splits sum.splits roi_shape.splits)

lemma keys_ok_add_named:
  "keys_ok (self\<lparr>shapes := xs\<rparr>) \<Longrightarrow>
     keys_ok (fst (add_named api (self\<lparr>shapes := xs\<rparr>) shapes0 s shape_type abv))"
  by (auto simp: keys_ok_def add_named_def Let_def dom_update split: option.splits sum.splits)

lemma keys_ok_add_shape:
  assumes "keys_ok self"
  shows "keys_ok (fst (add_shape api self s shape_type is_roi abv group0))"
proof -
  let ?self1 = "self\<lparr>shapes := put_shape abv (shapes self) s\<rparr>"
  have ok1: "keys_ok ?self1"
    using assms by (simp add: keys_ok_def)
  have grp: "keys_ok x" if "add_to_group api ?self1 s g = (x, y)" for g x y
    using keys_ok_add_to_group [OF ok1, of api s g] that by simp
  have nmd: "keys_ok x" if "add_named api ?self1 (shapes self) s shape_type abv = (x, y)" for x y
    using keys_ok_add_named [OF ok1, of api "shapes self" s shape_type abv] that by simp
  have fin: "keys_ok (fst (finish_shape x t b))" if "keys_ok x" for x t b
    using that by (simp add: keys_ok_finish_shape)
  show ?thesis
    unfolding add_shape_def Let_def
    by (auto split: option.splits prod.splits sum.splits intro: ok1 fin dest: grp nmd)
qed

lemma keys_ok_add_cuboid:
  "keys_ok self \<Longrightarrow>
     keys_ok (fst (add_cuboid api self side_length centre intensity is_roi name abv group0))"
  by (simp add: add_cuboid_def Let_def keys_ok_add_shape)

lemma keys_ok_add_cube:
  "keys_ok self \<Longrightarrow>
     keys_ok (fst (add_cube api self side_length centre intensity is_roi name abv group0))"
  by (simp add: add_cube_def Let_def keys_ok_add_cuboid)

text \<open>
  On such an image \<open>get_roi\<close> never raises \<open>KeyError\<close>: for a name of \<open>rois\<close> it
  returns the ROI with its fresh mask, unless the mask itself cannot be computed.
\<close>

lemma get_roi_keys_ok:
  assumes "keys_ok self" and "map_of (rois self) name = Some r"
  shows "\<exists>rs. map_of (roi_shapes self) name = Some rs \<and>
           get_roi api self name =
             (case roi_shape_get_data api rs (get_coords api self) of
                Inl e \<Rightarrow> ([], self, Inl e)
              | Inr d \<Rightarrow>
                  ([], self\<lparr>rois := AList.update name (r\<lparr>roi_data := d\<rparr>) (rois self)\<rparr>,
                   Inr (Some (r\<lparr>roi_data := d\<rparr>))))"
proof -
  from assms(2) have "name \<in> fst ` set (rois self)"
    by (metis map_of_eq_None_iff option.distinct(1))
  with assms(1) have "name \<in> fst ` set (roi_shapes self)"
    by (auto simp: keys_ok_def)
  then obtain rs where rs: "map_of (roi_shapes self) name = Some rs"
    by (metis map_of_eq_None_iff not_Some_eq)
  with get_roi_present [OF assms(2) rs] show ?thesis
    by simp
qed

text \<open>
  \<open>reset\<close> on an image that holds an ROI: \<open>roi_shapes\<close> is emptied, \<open>rois\<close> is not, and
  the refresh of the first ROI raises \<open>KeyError\<close>. The image it leaves is not well-formed.
\<close>

lemma reset_raises:
  assumes "rois self = (name, r) # rest"
  shows "snd (reset api self) = Inl (KeyError (Some name))"
    and "rois (fst (reset api self)) = rois self"
    and "roi_shapes (fst (reset api self)) = []"
    and "\<not> keys_ok (fst (reset api self))"
  using assms
  by (simp_all add: reset_def update_rois_def update_roi_def dict_get_def keys_ok_def)

text \<open>
  C10 at a concrete input: \<open>sim.add_cube(4, name="cube")\<close>, then \<open>sim.reset()\<close>, which
  raises \<open>KeyError\<close>, then \<open>sim.get_roi("cube")\<close>. The name is present in \<open>rois\<close>, and
  \<open>get_roi\<close> raises \<open>KeyError\<close> where it should refresh and return the ROI.
\<close>

theorem get_roi_after_reset:
  "snd (add_cube test_api test_image (Num 4) None None None (Some ''cube'') None None) =
     Inr (Some \<lparr>roi_data = [True, False, False], roi_name = ''cube'', roi_affine = ()\<rparr>) \<and>
   snd (reset test_api cube_image) = Inl (KeyError (Some ''cube'')) \<and>
   dict_has (rois stale_image) ''cube'' \<and>
   get_roi test_api stale_image ''cube'' = ([], stale_image, Inl (KeyError (Some ''cube'')))"
  by code_simp

text \<open>
  Before the \<open>reset\<close> the same call returns the ROI, and on a group that has grown since
  its ROI was built the mask returned is the fresh one.
\<close>

lemma get_roi_before_reset:
  "get_roi test_api cube_image ''cube'' =
     ([], cube_image,
      Inr (Some \<lparr>roi_data = [True, False, False], roi_name = ''cube'', roi_affine = ()\<rparr>))"
  by code_simp

lemma get_roi_refreshes_group:
  "map_of (rois group_image) ''g'' =
     Some \<lparr>roi_data = [True, False, False], roi_name = ''g'', roi_affine = ()\<rparr> \<and>
   snd (snd (get_roi test_api group_image ''g'')) =
     Inr (Some \<lparr>roi_data = [True, False, True], roi_name = ''g'', roi_affine = ()\<rparr>)"
  by code_simp

subsection \<open>Parameter codec\<close>

lemma num_value_sub: "num_value (num_sub a b) = num_value a - num_value b"
  by (cases a; cases b) simp_all

lemma as_of_number: "as_number (of_number n) = Some n"
  by (cases n) simp_all

lemma shift_entries_three:
  assumes "3 \<le> length vs"
    and "as_number (vs ! 0) = Some x" and "as_number (vs ! 1) = Some y"
    and "as_number (vs ! 2) = Some z"
  shows "shift_entries vs dx dy dz =
           Inr (of_number (num_sub x dx) # of_number (num_sub y dy) # of_number (num_sub z dz)
                  # drop 3 vs)"
proof -
  from assms(1) obtain a b c rest where vs: "vs = a # b # c # rest"
    by (cases vs; cases "tl vs"; cases "tl (tl vs)") auto
  with assms(2-4) show ?thesis
    by simp
qed

lemma shift_entries_too_few: "length vs < 3 \<Longrightarrow> shift_entries vs dx dy dz = Inl SchemaError"
  by (cases vs; cases "tl vs"; cases "tl (tl vs)") auto

text \<open>
  C2. For a transform file whose \<open>TransformParameters\<close> list has at least three entries,
  the first three of them numbers \<open>x\<close>, \<open>y\<close>, \<open>z\<close>, and for every shift \<open>(dx, dy, dz)\<close>:
  \<open>shiftTranslation\<close> succeeds, and the file it writes, read again, has a
  \<open>TransformParameters\<close> list whose first three entries are \<open>x - dx\<close>, \<open>y - dy\<close>, \<open>z - dz\<close>
  and whose other entries are the input's. Every other key of the file and every other
  file is as before.
\<close>

theorem shiftTranslation_spec:
  assumes "read_parameters fs src = Inr ps"
    and "transform_parameters ps = Some init"
    and "3 \<le> length init"
    and "as_number (init ! 0) = Some x" and "as_number (init ! 1) = Some y"
    and "as_number (init ! 2) = Some z"
  shows "\<exists>fs' ps' final.
           shiftTranslation fs src dx dy dz dst = Inr fs' \<and>
           read_parameters fs' dst = Inr ps' \<and>
           transform_parameters ps' = Some final \<and>
           map as_number (take 3 final) =
             [Some (num_sub x dx), Some (num_sub y dy), Some (num_sub z dz)] \<and>
           num_value (num_sub x dx) = num_value x - num_value dx \<and>
           num_value (num_sub y dy) = num_value y - num_value dy \<and>
           num_value (num_sub z dz) = num_value z - num_value dz \<and>
           drop 3 final = drop 3 init \<and>
           length final = length init \<and>
           map fst ps' = map fst ps \<and>
           (\<forall>k. k \<noteq> ''TransformParameters'' \<longrightarrow> map_of ps' k = map_of ps k) \<and>
           (\<forall>p. p \<noteq> dst \<longrightarrow> fs' p = fs p)"
proof -
  let ?final = "of_number (num_sub x dx) # of_number (num_sub y dy) # of_number (num_sub z dz)
                  # drop 3 init"
  let ?ps' = "AList.update ''TransformParameters'' (PList ?final) ps"
  let ?fs' = "fs(dst \<mapsto> ?ps')"
  from assms(2) have entry: "map_of ps ''TransformParameters'' = Some (PList init)"
    by (auto simp: transform_parameters_def split: option.splits pvalue.splits)
  have run: "shiftTranslation fs src dx dy dz dst = Inr ?fs'"
    using assms(1) entry shift_entries_three [OF assms(3-6)]
    by (simp add: shiftTranslation_def write_parameters_def)
  have reread: "read_parameters ?fs' dst = Inr ?ps'"
    by (simp add: read_parameters_def)
  have tp: "transform_parameters ?ps' = Some ?final"
    by (simp add: transform_parameters_def update_conv')
  have keys: "map fst ?ps' = map fst ps"
  proof -
    from entry have "(''TransformParameters'', PList init) \<in> set ps"
      by (rule map_of_SomeD)
    then have "''TransformParameters'' \<in> fst ` set ps"
      by force
    then show ?thesis
      by (simp add: update_keys)
  qed
  have others: "\<forall>k. k \<noteq> ''TransformParameters'' \<longrightarrow> map_of ?ps' k = map_of ps k"
    by (simp add: update_conv')
  have len: "length ?final = length init"
    using assms(3) by simp
  show ?thesis
    using run reread tp keys others len
    by (intro exI [of _ ?fs'] exI [of _ ?ps'] exI [of _ ?final])
       (simp add: as_of_number num_value_sub)
qed

theorem shiftTranslation_spec_witness:
  "\<exists>fs' ps' final.
     shiftTranslation shift_store ''TransformParameters.0.txt'' (NInt 5) (NInt 7) (NInt 3)
       ''shifted.txt'' = Inr fs' \<and>
     read_parameters fs' ''shifted.txt'' = Inr ps' \<and>
     transform_parameters ps' = Some final \<and>
     map as_number (take 3 final) =
       [Some (NFloat (- 7 / 2)), Some (NInt (- 9)), Some (NFloat (- 11 / 4))] \<and>
     drop 3 final = [SInt 1, SFloat 0]"
proof -
  let ?init = "[SFloat (3 / 2), SInt (- 2), SFloat (1 / 4), SInt 1, SFloat 0]"
  have h1: "read_parameters shift_store ''TransformParameters.0.txt'' = Inr transform_file"
    by (simp add: read_parameters_def shift_store_def)
  have h2: "transform_parameters transform_file = Some ?init"
    by (simp add: transform_parameters_def transform_file_def)
  have h3: "3 \<le> length ?init"
    by simp
  have h4: "as_number (?init ! 0) = Some (NFloat (3 / 2))"
    and h5: "as_number (?init ! 1) = Some (NInt (- 2))"
    and h6: "as_number (?init ! 2) = Some (NFloat (1 / 4))"
    by simp_all
  have subs: "num_sub (NFloat (3 / 2)) (NInt 5) = NFloat (- 7 / 2)"
    "num_sub (NInt (- 2)) (NInt 7) = NInt (- 9)"
    "num_sub (NFloat (1 / 4)) (NInt 3) = NFloat (- 11 / 4)"
    by simp_all
  have rest: "drop 3 ?init = [SInt 1, SFloat 0]"
    by simp
  from shiftTranslation_spec [OF h1 h2 h3 h4 h5 h6, of "NInt 5" "NInt 7" "NInt 3" "''shifted.txt''"]
  show ?thesis
    unfolding subs rest
    by (elim exE conjE) (intro exI conjI, assumption+)
qed

end
